theory Spec2Isabelle
  imports Main
begin

section \<open>dircap: the summary mailer \<^verbatim>\<open>examples/send-email.py\<close>\<close>

text \<open>
  The script reads a JSON report of a dircap run, tallies it, formats a plain-text alert
  and sends it over SMTP. Its own functions (\<^verbatim>\<open>_env\<close>, \<^verbatim>\<open>_env_bool\<close>,
  \<^verbatim>\<open>_load_json\<close>, \<^verbatim>\<open>_summarize\<close>, \<^verbatim>\<open>_fmt_row\<close>, \<^verbatim>\<open>_build_message\<close>,
  \<^verbatim>\<open>_send_email\<close>, \<^verbatim>\<open>main\<close>) are embedded below as HOL functions with the same
  names (without the leading underscore). Everything the script reaches outside itself (the
  process environment, the file system, the JSON parser, the clock, the e-mail library's
  checks and the SMTP server) is a field of the record \<open>world\<close>, so that every theorem holds
  whatever those do.

  Python strings are modelled as \<^typ>\<open>string\<close>: a \<^typ>\<open>char\<close> is a code point below 256,
  and the built-in operations on strings (\<^verbatim>\<open>strip\<close>, \<^verbatim>\<open>lower\<close>, \<^verbatim>\<open>int\<close>, \<^verbatim>\<open>repr\<close>,
  padding) are written for these code points as CPython 3.11 treats them. Strings with
  code points from 256 on are not represented.
\<close>

subsection \<open>Exceptions and JSON values\<close>

datatype error = ValueError | TypeError | OverflowError | OtherException string

text \<open>
  A Python \<^verbatim>\<open>float\<close> is not computed with here. It is represented by the three things
  the script can observe of it: its \<^verbatim>\<open>repr\<close>, the outcome of \<^verbatim>\<open>int(x)\<close> (which raises for
  \<^verbatim>\<open>nan\<close> and the infinities) and whether it is non-zero.
\<close>

datatype pyfloat = PyFloat (float_repr: string) (float_int: "error + int") (float_nonzero: bool)

text \<open>
  The value \<^verbatim>\<open>json.loads\<close> returns: \<^verbatim>\<open>None\<close>, a \<^verbatim>\<open>bool\<close>, an \<^verbatim>\<open>int\<close>, a \<^verbatim>\<open>float\<close>,
  a \<^verbatim>\<open>str\<close>, a \<^verbatim>\<open>list\<close> or a \<^verbatim>\<open>dict\<close> with string keys. A dict is an association list in
  insertion order (the order \<^verbatim>\<open>str\<close> prints it in); lookup takes the first entry of a key.
\<close>

datatype json =
    JNull
  | JBool bool
  | JInt int
  | JFloat pyfloat
  | JStr string
  | JList "json list"
  | JObj "(string \<times> json) list"

type_synonym pydict = "(string \<times> json) list"

subsection \<open>Python built-ins used by the script\<close>

text \<open>\<^verbatim>\<open>d.get(k, default)\<close>; \<^verbatim>\<open>d.get(k)\<close> is \<open>dict_get d k JNull\<close>.\<close>

definition dict_get :: "pydict \<Rightarrow> string \<Rightarrow> json \<Rightarrow> json" where
  "dict_get d k dflt = (case map_of d k of None \<Rightarrow> dflt | Some v \<Rightarrow> v)"

text \<open>Truth value of an object, and \<^verbatim>\<open>x or y\<close>.\<close>

fun py_truthy :: "json \<Rightarrow> bool" where
  "py_truthy JNull = False"
| "py_truthy (JBool b) = b"
| "py_truthy (JInt n) = (n \<noteq> 0)"
| "py_truthy (JFloat f) = float_nonzero f"
| "py_truthy (JStr s) = (s \<noteq> [])"
| "py_truthy (JList xs) = (xs \<noteq> [])"
| "py_truthy (JObj kvs) = (kvs \<noteq> [])"

definition py_or :: "json \<Rightarrow> json \<Rightarrow> json" where
  "py_or x y = (if py_truthy x then x else y)"

text \<open>
  \<^verbatim>\<open>isinstance(x, int)\<close>: \<^verbatim>\<open>bool\<close> is a subclass of \<^verbatim>\<open>int\<close> in Python, so both
  \<^verbatim>\<open>True\<close> and \<^verbatim>\<open>False\<close> are instances of \<^verbatim>\<open>int\<close>.
\<close>

fun isinstance_int :: "json \<Rightarrow> bool" where
  "isinstance_int (JInt n) = True"
| "isinstance_int (JBool b) = True"
| "isinstance_int v = False"

text \<open>
  Whitespace as \<^verbatim>\<open>str.strip()\<close> sees it: the characters for which \<^verbatim>\<open>str.isspace\<close> holds,
  which below 256 are the tab, the line breaks, the four separators 0x1C to 0x1F, the
  space, the next-line control 0x85 and the no-break space 0xA0.
\<close>

definition is_space :: "char \<Rightarrow> bool" where
  "is_space c \<longleftrightarrow> c \<in> set [CHR 0x20, CHR 0x09, CHR 0x0A, CHR 0x0B, CHR 0x0C, CHR 0x0D,
                           CHR 0x1C, CHR 0x1D, CHR 0x1E, CHR 0x1F, CHR 0x85, CHR 0xA0]"

text \<open>Dropping the characters of a class at both ends of a string.\<close>

definition trim :: "(char \<Rightarrow> bool) \<Rightarrow> string \<Rightarrow> string" where
  "trim blank s = rev (dropWhile blank (rev (dropWhile blank s)))"

text \<open>\<^verbatim>\<open>str.strip()\<close>\<close>

definition strip :: "string \<Rightarrow> string" where
  "strip s = trim is_space s"

text \<open>
  \<^verbatim>\<open>str.lower()\<close>: the letters A to Z and the capital letters of the range 0xC0 to 0xDE
  (the multiplication sign 0xD7 is no letter) have a lower-case form, 32 places up.
\<close>

definition lower_char :: "char \<Rightarrow> char" where
  "lower_char c =
     (case map_of (zip (''ABCDEFGHIJKLMNOPQRSTUVWXYZ'' @
                        [CHR 0xC0, CHR 0xC1, CHR 0xC2, CHR 0xC3, CHR 0xC4, CHR 0xC5, CHR 0xC6,
                         CHR 0xC7, CHR 0xC8, CHR 0xC9, CHR 0xCA, CHR 0xCB, CHR 0xCC, CHR 0xCD,
                         CHR 0xCE, CHR 0xCF, CHR 0xD0, CHR 0xD1, CHR 0xD2, CHR 0xD3, CHR 0xD4,
                         CHR 0xD5, CHR 0xD6, CHR 0xD8, CHR 0xD9, CHR 0xDA, CHR 0xDB, CHR 0xDC,
                         CHR 0xDD, CHR 0xDE])
                       (''abcdefghijklmnopqrstuvwxyz'' @
                        [CHR 0xE0, CHR 0xE1, CHR 0xE2, CHR 0xE3, CHR 0xE4, CHR 0xE5, CHR 0xE6,
                         CHR 0xE7, CHR 0xE8, CHR 0xE9, CHR 0xEA, CHR 0xEB, CHR 0xEC, CHR 0xED,
                         CHR 0xEE, CHR 0xEF, CHR 0xF0, CHR 0xF1, CHR 0xF2, CHR 0xF3, CHR 0xF4,
                         CHR 0xF5, CHR 0xF6, CHR 0xF8, CHR 0xF9, CHR 0xFA, CHR 0xFB, CHR 0xFC,
                         CHR 0xFD, CHR 0xFE])) c of
        Some d \<Rightarrow> d
      | None \<Rightarrow> c)"

definition lower :: "string \<Rightarrow> string" where
  "lower s = map lower_char s"

text \<open>
  Decimal numerals: \<^verbatim>\<open>str(n)\<close> for an \<^verbatim>\<open>int\<close>. (The interpreter refuses to print an
  \<^verbatim>\<open>int\<close> of more than 4300 digits; the script meets none, since \<^verbatim>\<open>json.loads\<close> and
  \<^verbatim>\<open>int\<close> do not read one and a \<^verbatim>\<open>float\<close> has at most 309.)
\<close>

definition digit_char :: "nat \<Rightarrow> char" where
  "digit_char d = ''0123456789'' ! d"

fun str_nat :: "nat \<Rightarrow> string" where
  "str_nat n = (if n < 10 then [digit_char n] else str_nat (n div 10) @ [digit_char (n mod 10)])"

declare str_nat.simps [simp del]

definition str_int :: "int \<Rightarrow> string" where
  "str_int i = (if i < 0 then CHR ''-'' # str_nat (nat (- i)) else str_nat (nat i))"

text \<open>
  \<^verbatim>\<open>int(s)\<close> for a string: surrounding whitespace is dropped, one sign is allowed, and the
  rest is decimal digits, with single underscores allowed between digits. Anything else
  raises \<^verbatim>\<open>ValueError\<close>, and so does a numeral of more than 4300 digits (the default of
  \<^verbatim>\<open>sys.get_int_max_str_digits()\<close>; leading zeros count, underscores do not).

  The whitespace \<^verbatim>\<open>int\<close> drops is not that of \<^verbatim>\<open>str.strip\<close>: of the characters below 128
  only the tab, the line breaks and the space, so that the separators 0x1C to 0x1F make
  \<^verbatim>\<open>int\<close> raise; from 128 on, the characters \<^verbatim>\<open>str.isspace\<close> holds for.
\<close>

definition is_int_space :: "char \<Rightarrow> bool" where
  "is_int_space c \<longleftrightarrow> c \<in> set [CHR 0x20, CHR 0x09, CHR 0x0A, CHR 0x0B, CHR 0x0C, CHR 0x0D,
                               CHR 0x85, CHR 0xA0]"

definition max_str_digits :: nat where
  "max_str_digits = 4300"

definition is_digit :: "char \<Rightarrow> bool" where
  "is_digit c \<longleftrightarrow> c \<in> set ''0123456789''"

definition digit_val :: "char \<Rightarrow> nat" where
  "digit_val c = (case map_of (zip ''0123456789'' [0, 1, 2, 3, 4, 5, 6, 7, 8, 9]) c of
                    Some d \<Rightarrow> d | None \<Rightarrow> 0)"

fun valid_digits :: "string \<Rightarrow> bool" where
  "valid_digits [] = False"
| "valid_digits [c] = is_digit c"
| "valid_digits (c # d # r) =
     (is_digit c \<and> (if d = CHR ''_'' then valid_digits r else valid_digits (d # r)))"

definition nat_of_digits :: "string \<Rightarrow> nat" where
  "nat_of_digits ds = foldl (\<lambda>acc c. 10 * acc + digit_val c) 0 ds"

definition int_of_str :: "string \<Rightarrow> error + int" where
  "int_of_str s =
     (let t = trim is_int_space s;
          neg = (t \<noteq> [] \<and> hd t = CHR ''-'');
          body = (if t \<noteq> [] \<and> (hd t = CHR ''-'' \<or> hd t = CHR ''+'') then tl t else t)
      in if valid_digits body \<and> length (filter is_digit body) \<le> max_str_digits
         then Inr ((if neg then - 1 else 1) * int (nat_of_digits (filter is_digit body)))
         else Inl ValueError)"

text \<open>\<^verbatim>\<open>int(x)\<close> for a JSON value.\<close>

fun py_int :: "json \<Rightarrow> error + int" where
  "py_int JNull = Inl TypeError"
| "py_int (JBool b) = Inr (if b then 1 else 0)"
| "py_int (JInt n) = Inr n"
| "py_int (JFloat f) = float_int f"
| "py_int (JStr s) = int_of_str s"
| "py_int (JList xs) = Inl TypeError"
| "py_int (JObj kvs) = Inl TypeError"

text \<open>
  \<^verbatim>\<open>repr\<close> and \<^verbatim>\<open>str\<close>. A string is quoted with single quotes, or with double quotes
  when it holds a single quote and no double quote; the quote, the backslash and the
  characters that are not printable (below 32, and 0x7F to 0xA0, and the soft hyphen 0xAD)
  are escaped. Lists and dicts print the \<^verbatim>\<open>repr\<close> of their members.
\<close>

definition hex_char :: "nat \<Rightarrow> char" where
  "hex_char d = ''0123456789abcdef'' ! d"

definition repr_char :: "char \<Rightarrow> char \<Rightarrow> string" where
  "repr_char q c =
     (if c = q \<or> c = CHR 0x5C then [CHR 0x5C, c]
      else if c = CHR 0x09 then [CHR 0x5C, CHR ''t'']
      else if c = CHR 0x0A then [CHR 0x5C, CHR ''n'']
      else if c = CHR 0x0D then [CHR 0x5C, CHR ''r'']
      else if (of_char c :: nat) < 32 \<or> (127 \<le> (of_char c :: nat) \<and> (of_char c :: nat) \<le> 160)
                \<or> c = CHR 0xAD
           then [CHR 0x5C, CHR ''x'', hex_char (of_char c div 16), hex_char (of_char c mod 16)]
      else [c])"

definition repr_str :: "string \<Rightarrow> string" where
  "repr_str s =
     (let q = (if CHR 0x27 \<in> set s \<and> CHR 0x22 \<notin> set s then CHR 0x22 else CHR 0x27)
      in [q] @ concat (map (repr_char q) s) @ [q])"

fun join :: "string \<Rightarrow> string list \<Rightarrow> string" where
  "join sep [] = []"
| "join sep [x] = x"
| "join sep (x # y # ys) = x @ sep @ join sep (y # ys)"

fun py_repr :: "json \<Rightarrow> string"
  and repr_items :: "json list \<Rightarrow> string list"
  and repr_pairs :: "(string \<times> json) list \<Rightarrow> string list" where
  "py_repr JNull = ''None''"
| "py_repr (JBool b) = (if b then ''True'' else ''False'')"
| "py_repr (JInt n) = str_int n"
| "py_repr (JFloat f) = float_repr f"
| "py_repr (JStr s) = repr_str s"
| "py_repr (JList xs) = ''['' @ join '', '' (repr_items xs) @ '']''"
| "py_repr (JObj kvs) = ''{'' @ join '', '' (repr_pairs kvs) @ ''}''"
| "repr_items [] = []"
| "repr_items (x # xs) = py_repr x # repr_items xs"
| "repr_pairs [] = []"
| "repr_pairs (kv # kvs) = (repr_str (fst kv) @ '': '' @ py_repr (snd kv)) # repr_pairs kvs"

definition py_str :: "json \<Rightarrow> string" where
  "py_str v = (case v of JStr s \<Rightarrow> s | _ \<Rightarrow> py_repr v)"

subsection \<open>The summarizer\<close>

text \<open>The tally: a dict with exactly the keys \<^verbatim>\<open>ok\<close>, \<^verbatim>\<open>warn\<close>, \<^verbatim>\<open>over\<close>.\<close>

record summary =
  ok :: int
  warn :: int
  over :: int

text \<open>\<^verbatim>\<open>int(s.get(k, 0) or 0)\<close>\<close>

definition tally_field :: "pydict \<Rightarrow> string \<Rightarrow> error + int" where
  "tally_field s k = py_int (py_or (dict_get s k (JInt 0)) (JInt 0))"

text \<open>
  The three assignments to \<^verbatim>\<open>summary["ok"]\<close>, \<^verbatim>\<open>summary["warn"]\<close>, \<^verbatim>\<open>summary["over"]\<close>,
  in that order; the first coercion that raises ends the function.
\<close>

definition read_tally :: "pydict \<Rightarrow> error + summary" where
  "read_tally s =
     (case tally_field s ''ok'' of
        Inl e \<Rightarrow> Inl e
      | Inr a \<Rightarrow>
          (case tally_field s ''warn'' of
             Inl e \<Rightarrow> Inl e
           | Inr b \<Rightarrow>
               (case tally_field s ''over'' of
                  Inl e \<Rightarrow> Inl e
                | Inr c \<Rightarrow> Inr \<lparr>ok = a, warn = b, over = c\<rparr>)))"

text \<open>\<^verbatim>\<open>[x for x in r if isinstance(x, dict)]\<close>\<close>

definition dicts_of :: "json list \<Rightarrow> pydict list" where
  "dicts_of r = [d. JObj d \<leftarrow> r]"

text \<open>\<^verbatim>\<open>[str(x) for x in w if str(x).strip()]\<close>\<close>

definition warning_strings :: "json list \<Rightarrow> string list" where
  "warning_strings w = [py_str x. x \<leftarrow> w, strip (py_str x) \<noteq> []]"

text \<open>
  The first half of \<^verbatim>\<open>_summarize\<close>: the initial values and the
  \<^verbatim>\<open>if isinstance(payload, dict) ... elif isinstance(payload, list)\<close> statement.
\<close>

definition read_report :: "json \<Rightarrow> error + (summary \<times> string list \<times> pydict list)" where
  "read_report payload =
     (let summary = \<lparr>ok = 0, warn = 0, over = 0\<rparr>; warnings = []; results = [] in
      case payload of
        JObj d \<Rightarrow>
          (case (case dict_get d ''summary'' JNull of
                   JObj s \<Rightarrow> read_tally s
                 | _ \<Rightarrow> Inr summary) of
             Inl e \<Rightarrow> Inl e
           | Inr summary \<Rightarrow>
               Inr (summary,
                    (case dict_get d ''warnings'' JNull of
                       JList w \<Rightarrow> warning_strings w
                     | _ \<Rightarrow> warnings),
                    (case dict_get d ''results'' JNull of
                       JList r \<Rightarrow> dicts_of r
                     | _ \<Rightarrow> results)))
      | JList l \<Rightarrow> Inr (summary, warnings, dicts_of l)
      | _ \<Rightarrow> Inr (summary, warnings, results))"

text \<open>\<^verbatim>\<open>sum(1 for r in results if str(r.get("status")) == label)\<close>\<close>

definition count_status :: "string \<Rightarrow> pydict list \<Rightarrow> int" where
  "count_status label results =
     sum_list [1. r \<leftarrow> results, py_str (dict_get r ''status'' JNull) = label]"

text \<open>\<^verbatim>\<open>_summarize\<close>: the report is read, then the tally is recomputed under the guard.\<close>

definition summarize :: "json \<Rightarrow> error + (summary \<times> string list \<times> pydict list)" where
  "summarize payload =
     (case read_report payload of
        Inl e \<Rightarrow> Inl e
      | Inr (summary, warnings, results) \<Rightarrow>
          if (ok summary, warn summary, over summary) = (0, 0, 0) \<and> results \<noteq> []
          then Inr (\<lparr>ok = count_status ''OK'' results,
                     warn = count_status ''WARN'' results,
                     over = count_status ''OVER'' results\<rparr>, warnings, results)
          else Inr (summary, warnings, results))"

subsection \<open>Formatting\<close>

text \<open>
  \<^verbatim>\<open>f"{s:4}"\<close> pads a string on the right to width 4, \<^verbatim>\<open>f"{s:>4}"\<close> on the left;
  a longer string is kept whole.
\<close>

definition pad_right :: "nat \<Rightarrow> string \<Rightarrow> string" where
  "pad_right n s = s @ replicate (n - length s) CHR '' ''"

definition pad_left :: "nat \<Rightarrow> string \<Rightarrow> string" where
  "pad_left n s = replicate (n - length s) CHR '' '' @ s"

text \<open>\<^verbatim>\<open>_fmt_row\<close>\<close>

definition fmt_row :: "pydict \<Rightarrow> string" where
  "fmt_row r =
     (let name = py_str (dict_get r ''name'' (JStr []));
          path = py_str (dict_get r ''path'' (JStr []));
          pct = py_str (dict_get r ''pct_used'' (JStr []));
          status = py_str (dict_get r ''status'' (JStr []));
          used_b = dict_get r ''used_bytes'' JNull;
          limit_b = dict_get r ''limit_bytes'' JNull;
          used_part = (if isinstance_int used_b then py_str used_b @ ''B'' else []);
          limit_part = (if isinstance_int limit_b then py_str limit_b @ ''B'' else []);
          extra = (if used_part \<noteq> [] \<and> limit_part \<noteq> []
                   then '' ('' @ used_part @ ''/'' @ limit_part @ '')''
                   else [])
      in ''- '' @ pad_right 4 status @ '' '' @ pad_left 4 pct @ ''%  '' @ name @ ''  |  '' @ path
           @ extra)"

subsection \<open>The world outside the script\<close>

text \<open>
  A \<^verbatim>\<open>pathlib.Path\<close>, known by the text \<^verbatim>\<open>str(p)\<close> gives for it. The constructor
  \<^verbatim>\<open>Path(arg)\<close> belongs to the library and is a field of the world.
\<close>

datatype path = PurePath (path_str: string)

text \<open>The \<^verbatim>\<open>EmailMessage\<close> the mailer composes: three headers and the content.\<close>

record email_message =
  msg_from :: "string option"
  msg_to :: "string option"
  msg_subject :: string
  msg_content :: string

text \<open>
  What the mailer asks of \<^verbatim>\<open>smtplib\<close>, in the order it asks: opening a session
  (\<^verbatim>\<open>SMTP_SSL(host, port, timeout)\<close> or \<^verbatim>\<open>SMTP(host, port, timeout)\<close>), the calls on it,
  and the \<^verbatim>\<open>QUIT\<close> with which the \<^verbatim>\<open>with\<close> statement releases it.
\<close>

datatype smtp_action =
    SMTP_SSL "string option" int nat
  | SMTP "string option" int nat
  | Ehlo
  | StartTLS
  | Login "string option" "string option"
  | SendMessage email_message
  | Quit

datatype stream = Stdout | Stderr

record world =
  getenv :: "string \<Rightarrow> string option"
  path_of :: "string \<Rightarrow> path"
  path_exists :: "path \<Rightarrow> error + bool"
  read_text :: "path \<Rightarrow> error + string"
  json_loads :: "string \<Rightarrow> error + json"
  strftime_now :: string
  email_policy :: "email_message \<Rightarrow> error option"
  smtp :: "smtp_action list \<Rightarrow> smtp_action \<Rightarrow> string option"

text \<open>
  \<^item> \<open>getenv\<close>: \<^verbatim>\<open>os.getenv\<close>.
  \<^item> \<open>path_of\<close>: \<^verbatim>\<open>Path(arg)\<close>.
  \<^item> \<open>path_exists\<close>: \<^verbatim>\<open>p.exists()\<close>, which answers or raises (\<^verbatim>\<open>OSError\<close> for a name
    that is too long or a directory that may not be searched, for instance).
  \<^item> \<open>read_text\<close>: \<^verbatim>\<open>p.read_text(encoding="utf-8")\<close>, which returns the text or raises.
  \<^item> \<open>json_loads\<close>: \<^verbatim>\<open>json.loads\<close>, which returns a value or raises.
  \<^item> \<open>strftime_now\<close>: \<^verbatim>\<open>datetime.now().strftime('%Y-%m-%d %H:%M:%S')\<close>, the local
    time when the message is built.
  \<^item> \<open>email_policy\<close>: the exception, if any, that \<^verbatim>\<open>EmailMessage\<close> raises while the
    headers and the content are stored (a header value with a line break is refused, for
    one).
  \<^item> \<open>smtp\<close>: given the requests already made in this session and the next one, the detail
    \<^verbatim>\<open>str(e)\<close> of the exception that request raises, or \<open>None\<close> when it succeeds.
\<close>

text \<open>
  What a run leaves behind: the return value or the exception that escaped, the lines
  printed and the SMTP requests made.
\<close>

record run =
  result :: "error + int"
  printed :: "(stream \<times> string) list"
  network :: "smtp_action list"

subsection \<open>Config reader\<close>

text \<open>\<^verbatim>\<open>_env\<close>\<close>

definition env :: "world \<Rightarrow> string \<Rightarrow> string option \<Rightarrow> string option" where
  "env w name dflt =
     (case getenv w name of
        None \<Rightarrow> dflt
      | Some v \<Rightarrow> (let v = strip v in if v \<noteq> [] then Some v else dflt))"

text \<open>\<^verbatim>\<open>_env_bool\<close>\<close>

definition env_bool :: "world \<Rightarrow> string \<Rightarrow> bool \<Rightarrow> bool" where
  "env_bool w name dflt =
     (case env w name None of
        None \<Rightarrow> dflt
      | Some v \<Rightarrow> lower v \<in> set [''1'', ''true'', ''yes'', ''y'', ''on''])"

text \<open>An \<^verbatim>\<open>Optional[str]\<close> under \<^verbatim>\<open>not\<close>, \<^verbatim>\<open>int\<close> and \<^verbatim>\<open>str\<close>.\<close>

definition opt_not :: "string option \<Rightarrow> bool" where
  "opt_not v = (case v of None \<Rightarrow> True | Some s \<Rightarrow> s = [])"

definition opt_int :: "string option \<Rightarrow> error + int" where
  "opt_int v = (case v of None \<Rightarrow> Inl TypeError | Some s \<Rightarrow> int_of_str s)"

definition opt_str :: "string option \<Rightarrow> string" where
  "opt_str v = (case v of None \<Rightarrow> ''None'' | Some s \<Rightarrow> s)"

subsection \<open>Report loader\<close>

text \<open>\<^verbatim>\<open>_load_json\<close>: \<^verbatim>\<open>except Exception\<close> turns every exception of the body into \<^verbatim>\<open>None\<close>.\<close>

definition load_json :: "world \<Rightarrow> path \<Rightarrow> error + json" where
  "load_json w p =
     (case (case read_text w p of Inl e \<Rightarrow> Inl e | Inr text \<Rightarrow> json_loads w text) of
        Inl e \<Rightarrow> Inr JNull
      | Inr v \<Rightarrow> Inr v)"

subsection \<open>Message builder\<close>

text \<open>\<^verbatim>\<open>_build_message\<close>; the only thing it reads from the world is the clock.\<close>

definition build_message ::
  "world \<Rightarrow> summary \<Rightarrow> string list \<Rightarrow> pydict list \<Rightarrow> path \<Rightarrow> path \<Rightarrow> string \<times> string" where
  "build_message w summary warnings results log_txt log_json =
     (let affected = [r \<leftarrow> results. py_str (dict_get r ''status'' JNull) \<in> set [''WARN'', ''OVER'']];
          subject = ''dircap alert: OVER='' @ str_int (over summary)
                      @ '' WARN='' @ str_int (warn summary);
          lines = [''dircap detected a cap breach.'',
                   [],
                   ''Summary: OK='' @ str_int (ok summary) @ ''  WARN='' @ str_int (warn summary)
                     @ ''  OVER='' @ str_int (over summary),
                   ''Time:    '' @ strftime_now w,
                   []];
          lines = lines @
                  (if affected \<noteq> []
                   then [''Affected folders (WARN/OVER):''] @ map fmt_row affected @ [[]]
                   else [''Affected folders: (could not parse details from JSON)'', []]);
          lines = lines @
                  (if warnings \<noteq> []
                   then [''Warnings:''] @ map (\<lambda>w. ''- '' @ w) warnings @ [[]]
                   else []);
          lines = lines @
                  [''Logs:'',
                   ''- Text: '' @ path_str log_txt,
                   ''- JSON: '' @ path_str log_json,
                   [],
                   ''Tip: Open the text log for the full Rich table output.'']
      in (subject, join [CHR 0x0A] lines))"

subsection \<open>Mailer\<close>

text \<open>
  The requests of a session are made in order until one raises. \<open>run_requests\<close> returns the
  requests made and the exception, if any.
\<close>

fun run_requests ::
  "(smtp_action list \<Rightarrow> smtp_action \<Rightarrow> string option) \<Rightarrow> smtp_action list \<Rightarrow> smtp_action list
     \<Rightarrow> smtp_action list \<times> string option" where
  "run_requests net made [] = (made, None)"
| "run_requests net made (a # todo) =
     (case net made a of
        Some e \<Rightarrow> (made @ [a], Some e)
      | None \<Rightarrow> run_requests net (made @ [a]) todo)"

text \<open>
  \<^verbatim>\<open>with smtplib.SMTP...(...) as s: body\<close>: when opening the session raises, nothing else
  happens; otherwise the body runs and the session is released with \<^verbatim>\<open>QUIT\<close> whether or
  not the body raised, and an exception of the release replaces the body's.
\<close>

definition smtp_session ::
  "(smtp_action list \<Rightarrow> smtp_action \<Rightarrow> string option) \<Rightarrow> smtp_action \<Rightarrow> smtp_action list
     \<Rightarrow> smtp_action list \<times> string option" where
  "smtp_session net conn body =
     (case net [] conn of
        Some e \<Rightarrow> ([conn], Some e)
      | None \<Rightarrow>
          (case run_requests net [conn] body of
             (made, r) \<Rightarrow>
               (case net made Quit of
                  Some e \<Rightarrow> (made @ [Quit], Some e)
                | None \<Rightarrow> (made @ [Quit], r))))"

text \<open>The two transport flags of \<^verbatim>\<open>_send_email\<close> (its lines 195 to 200), for a port.\<close>

definition transport_flags :: "world \<Rightarrow> int \<Rightarrow> bool \<times> bool" where
  "transport_flags w port =
     (let use_ssl_default = (port = 465);
          use_tls_default = (port = 587);
          use_ssl = env_bool w ''EMAIL_USE_SSL'' use_ssl_default;
          use_tls = env_bool w ''EMAIL_USE_TLS'' use_tls_default
      in (use_ssl, use_tls))"

text \<open>The requests of the \<^verbatim>\<open>try\<close> block of \<^verbatim>\<open>_send_email\<close> (its lines 209 to 220).\<close>

definition deliver ::
  "world \<Rightarrow> bool \<Rightarrow> bool \<Rightarrow> string option \<Rightarrow> int \<Rightarrow> string option \<Rightarrow> string option
     \<Rightarrow> email_message \<Rightarrow> smtp_action list \<times> string option" where
  "deliver w use_ssl use_tls smtp_server port smtp_user smtp_pass msg =
     (if use_ssl
      then smtp_session (smtp w) (SMTP_SSL smtp_server port 30)
             [Login smtp_user smtp_pass, SendMessage msg]
      else smtp_session (smtp w) (SMTP smtp_server port 30)
             ([Ehlo] @ (if use_tls then [StartTLS, Ehlo] else [])
                @ [Login smtp_user smtp_pass, SendMessage msg]))"

text \<open>\<^verbatim>\<open>_send_email\<close>\<close>

definition send_email :: "world \<Rightarrow> string \<Rightarrow> string \<Rightarrow> run" where
  "send_email w subject body =
     (let to = env w ''DIRCAP_EMAIL_TO'' None;
          smtp_server = env w ''DIRCAP_SMTP_SERVER'' None;
          smtp_user = env w ''DIRCAP_SMTP_USER'' None;
          smtp_pass = env w ''DIRCAP_SMTP_PASS'' None
      in if opt_not to \<or> opt_not smtp_server \<or> opt_not smtp_user \<or> opt_not smtp_pass
         then \<lparr>result = Inr 1,
               printed = [(Stderr, ''Missing env vars. Required: DIRCAP_EMAIL_TO, DIRCAP_SMTP_SERVER, DIRCAP_SMTP_USER, DIRCAP_SMTP_PASS'')],
               network = []\<rparr>
         else
           let from_addr = env w ''DIRCAP_EMAIL_FROM'' smtp_user;
               port_str = env w ''DIRCAP_SMTP_PORT'' (Some ''465'')
           in (case opt_int port_str of
                 Inl e \<Rightarrow>
                   if e = ValueError
                   then \<lparr>result = Inr 1,
                         printed = [(Stderr, ''Invalid DIRCAP_SMTP_PORT: '' @ opt_str port_str)],
                         network = []\<rparr>
                   else \<lparr>result = Inl e, printed = [], network = []\<rparr>
               | Inr port \<Rightarrow>
                   (case transport_flags w port of
                      (use_ssl, use_tls) \<Rightarrow>
                        let msg = \<lparr>msg_from = from_addr, msg_to = to, msg_subject = subject,
                                   msg_content = body\<rparr>
                        in (case email_policy w msg of
                              Some e \<Rightarrow> \<lparr>result = Inl e, printed = [], network = []\<rparr>
                            | None \<Rightarrow>
                                (case deliver w use_ssl use_tls smtp_server port smtp_user
                                        smtp_pass msg of
                                   (requests, None) \<Rightarrow>
                                     \<lparr>result = Inr 0,
                                      printed = [(Stdout, ''Email sent to '' @ opt_str to)],
                                      network = requests\<rparr>
                                 | (requests, Some e) \<Rightarrow>
                                     \<lparr>result = Inr 2,
                                      printed = [(Stderr, ''Email failed: '' @ e)],
                                      network = requests\<rparr>)))))"

subsection \<open>Entry point\<close>

text \<open>
  Line 238 of \<^verbatim>\<open>main\<close>:
  \<^verbatim>\<open>payload = _load_json(log_json) if log_json.exists() else None\<close>.
  The call of \<^verbatim>\<open>exists\<close> is outside every \<^verbatim>\<open>try\<close>: what it raises leaves \<^verbatim>\<open>main\<close>.
\<close>

definition report_payload :: "world \<Rightarrow> path \<Rightarrow> error + json" where
  "report_payload w log_json =
     (case path_exists w log_json of
        Inl e \<Rightarrow> Inl e
      | Inr found \<Rightarrow> if found then load_json w log_json else Inr JNull)"

text \<open>\<^verbatim>\<open>main\<close>\<close>

definition main :: "world \<Rightarrow> string list \<Rightarrow> run" where
  "main w argv =
     (if length argv \<noteq> 3
      then \<lparr>result = Inr 2,
            printed = [(Stderr, ''Usage: send-email.py <log_txt_path> <log_json_path>'')],
            network = []\<rparr>
      else
        let log_txt = path_of w (argv ! 1);
            log_json = path_of w (argv ! 2)
        in (case report_payload w log_json of
              Inl e \<Rightarrow> \<lparr>result = Inl e, printed = [], network = []\<rparr>
            | Inr payload \<Rightarrow>
                (case summarize payload of
                   Inl e \<Rightarrow> \<lparr>result = Inl e, printed = [], network = []\<rparr>
                 | Inr (summary, warnings, results) \<Rightarrow>
                     (case build_message w summary warnings results log_txt log_json of
                        (subject, body) \<Rightarrow> send_email w subject body))))"

text \<open>
  \<^verbatim>\<open>raise SystemExit(main(sys.argv))\<close>: the exit status of the process is the value
  \<open>main\<close> returns; an exception that escapes \<open>main\<close> ends the process with status 1.
\<close>

definition exit_status :: "run \<Rightarrow> int" where
  "exit_status r = (case result r of Inr code \<Rightarrow> code | Inl e \<Rightarrow> 1)"

subsection \<open>Reading the outcome of a session\<close>

text \<open>
  \<open>raised net made reqs\<close> replays the requests \<open>reqs\<close>, which follow the requests \<open>made\<close>,
  against the server and lists the details of the exceptions they raise, in order. It is
  used to state what the mailer does with a failing session.
\<close>

fun raised ::
  "(smtp_action list \<Rightarrow> smtp_action \<Rightarrow> string option) \<Rightarrow> smtp_action list \<Rightarrow> smtp_action list
     \<Rightarrow> string list" where
  "raised net made [] = []"
| "raised net made (a # reqs) =
     (case net made a of None \<Rightarrow> [] | Some e \<Rightarrow> [e]) @ raised net (made @ [a]) reqs"

text \<open>The four required settings as \<^verbatim>\<open>_send_email\<close> reads them, and its guard on them.\<close>

definition settings_missing :: "world \<Rightarrow> bool" where
  "settings_missing w \<longleftrightarrow>
     opt_not (env w ''DIRCAP_EMAIL_TO'' None) \<or> opt_not (env w ''DIRCAP_SMTP_SERVER'' None) \<or>
     opt_not (env w ''DIRCAP_SMTP_USER'' None) \<or> opt_not (env w ''DIRCAP_SMTP_PASS'' None)"

text \<open>The message \<^verbatim>\<open>_send_email\<close> composes for a subject and a body.\<close>

definition composed :: "world \<Rightarrow> string \<Rightarrow> string \<Rightarrow> email_message" where
  "composed w subject body =
     \<lparr>msg_from = env w ''DIRCAP_EMAIL_FROM'' (env w ''DIRCAP_SMTP_USER'' None),
      msg_to = env w ''DIRCAP_EMAIL_TO'' None,
      msg_subject = subject,
      msg_content = body\<rparr>"

subsection \<open>Counting by the status field\<close>

text \<open>
  The number of records whose status, as text, equals a label: the count the recomputed
  tally is specified to hold.
\<close>

definition count_records :: "string \<Rightarrow> pydict list \<Rightarrow> int" where
  "count_records label results =
     int (length (filter (\<lambda>r. py_str (dict_get r ''status'' JNull) = label) results))"

definition recount :: "pydict list \<Rightarrow> summary" where
  "recount results =
     \<lparr>ok = count_records ''OK'' results,
      warn = count_records ''WARN'' results,
      over = count_records ''OVER'' results\<rparr>"

subsection \<open>Example inputs\<close>

text \<open>
  A world with the four required settings and port 2525, no report file, a clock, and a
  server that accepts every request.
\<close>

definition example_world :: world where
  "example_world =
     \<lparr>getenv = map_of [(''DIRCAP_EMAIL_TO'', ''ops@example.org''),
                       (''DIRCAP_SMTP_SERVER'', ''smtp.example.org''),
                       (''DIRCAP_SMTP_USER'', ''bot''),
                       (''DIRCAP_SMTP_PASS'', ''secret''),
                       (''DIRCAP_SMTP_PORT'', ''2525'')],
      path_of = PurePath,
      path_exists = (\<lambda>p. Inr False),
      read_text = (\<lambda>p. Inl (OtherException ''FileNotFoundError'')),
      json_loads = (\<lambda>s. Inl ValueError),
      strftime_now = ''2026-11-04 09:42:00'',
      email_policy = (\<lambda>m. None),
      smtp = (\<lambda>made a. None)\<rparr>"

definition example_argv :: "string list" where
  "example_argv = [''send-email.py'', ''dircap-last.txt'', ''dircap-last.json'']"

text \<open>The flat report and the verbose report of the specification's examples.\<close>

definition flat_report :: json where
  "flat_report =
     JList [JObj [(''status'', JStr ''OK'')], JObj [(''status'', JStr ''WARN'')],
            JObj [(''status'', JStr ''OVER'')], JObj [(''status'', JStr ''OVER'')]]"

definition verbose_report :: json where
  "verbose_report =
     JObj [(''summary'', JObj [(''ok'', JInt 3), (''warn'', JInt 1), (''over'', JInt 0)]),
           (''results'', JList [JObj [(''status'', JStr ''WARN'')]])]"


definition bad_tally_report :: json where
  "bad_tally_report = JObj [(''summary'', JObj [(''ok'', JStr ''abc'')])]"

text \<open>A world whose report file exists and parses to \<open>bad_tally_report\<close>.\<close>

definition bad_tally_world :: world where
  "bad_tally_world =
     example_world\<lparr>path_exists := (\<lambda>p. Inr True),
                    read_text := (\<lambda>p. Inr ''(the text of the report)''),
                    json_loads := (\<lambda>s. Inr bad_tally_report)\<rparr>"

text \<open>A world in which asking whether the report file exists raises.\<close>

definition long_name_world :: world where
  "long_name_world =
     example_world\<lparr>path_exists := (\<lambda>p. Inl (OtherException ''OSError: File name too long''))\<rparr>"

text \<open>A world whose report file exists and holds text that is not JSON.\<close>

definition corrupt_report_world :: world where
  "corrupt_report_world =
     example_world\<lparr>path_exists := (\<lambda>p. Inr True),
                    read_text := (\<lambda>p. Inr ''{status: WARN''),
                    json_loads := (\<lambda>s. Inl ValueError)\<rparr>"

text \<open>A world with no setting at all, and one whose port setting is not a number.\<close>

definition unconfigured_world :: world where
  "unconfigured_world = example_world\<lparr>getenv := (\<lambda>name. None)\<rparr>"

definition bad_port_world :: world where
  "bad_port_world =
     example_world\<lparr>getenv := (getenv example_world)(''DIRCAP_SMTP_PORT'' \<mapsto> ''smtp'')\<rparr>"

text \<open>A world whose server refuses the connection.\<close>

definition refusing_world :: world where
  "refusing_world = example_world\<lparr>smtp := (\<lambda>made a. Some ''Connection refused'')\<rparr>"

text \<open>The result record of the specification's example, and one with boolean byte counts.\<close>

definition logs_row :: pydict where
  "logs_row =
     [(''status'', JStr ''WARN''), (''pct_used'', JInt 91), (''name'', JStr ''logs''),
      (''path'', JStr ''/var/logs''), (''used_bytes'', JInt 910), (''limit_bytes'', JInt 1000)]"

definition bool_row :: pydict where
  "bool_row =
     [(''status'', JStr ''WARN''), (''pct_used'', JInt 91), (''name'', JStr ''logs''),
      (''path'', JStr ''/var/logs''), (''used_bytes'', JBool True), (''limit_bytes'', JBool False)]"

section \<open>Properties\<close>

subsection \<open>Summarizer\<close>

lemma count_status_length: "count_status label results = count_records label results"
  unfolding count_status_def count_records_def
  by (induction results) simp_all

lemma count_records_nonneg: "0 \<le> count_records label results"
  by (simp add: count_records_def)

lemma summarize_of_read_report:
  assumes "read_report payload = Inr (t, w, r)"
  shows "summarize payload =
           Inr (if (ok t, warn t, over t) = (0, 0, 0) \<and> r \<noteq> [] then recount r else t, w, r)"
  using assms by (simp add: summarize_def recount_def count_status_length)



lemma read_report_flat:
  "read_report flat_report =
     Inr (\<lparr>ok = 0, warn = 0, over = 0\<rparr>, [],
          [[(''status'', JStr ''OK'')], [(''status'', JStr ''WARN'')],
           [(''status'', JStr ''OVER'')], [(''status'', JStr ''OVER'')]])"
  by (simp add: flat_report_def read_report_def dicts_of_def)

lemma read_report_verbose:
  "read_report verbose_report =
     Inr (\<lparr>ok = 3, warn = 1, over = 0\<rparr>, [], [[(''status'', JStr ''WARN'')]])"
  by (simp add: verbose_report_def read_report_def dict_get_def dicts_of_def read_tally_def
      tally_field_def py_or_def)

lemma tally_field_abc: "tally_field [(''ok'', JStr ''abc'')] ''ok'' = Inl ValueError"
  by (simp add: tally_field_def dict_get_def py_or_def int_of_str_def trim_def is_int_space_def max_str_digits_def
      is_digit_def)

lemma summarize_bad_tally: "summarize bad_tally_report = Inl ValueError"
  by (simp add: bad_tally_report_def summarize_def read_report_def dict_get_def read_tally_def
      tally_field_abc)




text \<open>
  Claim C4. With the tally, warnings and results read from the report, the summarizer
  returns the recount by status (records whose status is \<^verbatim>\<open>OK\<close>, \<^verbatim>\<open>WARN\<close>, \<^verbatim>\<open>OVER\<close>)
  exactly when the tally read is (0, 0, 0) and the results list is non-empty, and the
  tally read otherwise. The flat list of the specification yields ok 1, warn 1, over 2;
  the verbose report with tally ok 3, warn 1, over 0 and one WARN result keeps its tally.
\<close>

theorem summarize_recount_guard:
  assumes "read_report payload = Inr (t, w, r)"
  shows "summarize payload =
           Inr (if (ok t, warn t, over t) = (0, 0, 0) \<and> r \<noteq> [] then recount r else t, w, r) \<and>
         summarize flat_report =
           Inr (\<lparr>ok = 1, warn = 1, over = 2\<rparr>, [],
                [[(''status'', JStr ''OK'')], [(''status'', JStr ''WARN'')],
                 [(''status'', JStr ''OVER'')], [(''status'', JStr ''OVER'')]]) \<and>
         summarize verbose_report =
           Inr (\<lparr>ok = 3, warn = 1, over = 0\<rparr>, [], [[(''status'', JStr ''WARN'')]])"
proof -
  have "summarize flat_report =
     Inr (\<lparr>ok = 1, warn = 1, over = 2\<rparr>, [],
          [[(''status'', JStr ''OK'')], [(''status'', JStr ''WARN'')],
           [(''status'', JStr ''OVER'')], [(''status'', JStr ''OVER'')]])"
    by (simp add: summarize_def read_report_flat count_status_def dict_get_def py_str_def)
  moreover have "summarize verbose_report =
     Inr (\<lparr>ok = 3, warn = 1, over = 0\<rparr>, [], [[(''status'', JStr ''WARN'')]])"
    by (simp add: summarize_def read_report_verbose)
  ultimately show ?thesis
    using summarize_of_read_report [OF assms] by simp
qed

theorem summarize_recount_guard_witness:
  "read_report verbose_report =
     Inr (\<lparr>ok = 3, warn = 1, over = 0\<rparr>, [], [[(''status'', JStr ''WARN'')]]) \<and>
   summarize verbose_report =
     Inr (\<lparr>ok = 3, warn = 1, over = 0\<rparr>, [], [[(''status'', JStr ''WARN'')]])"
  using summarize_recount_guard [OF read_report_verbose] read_report_verbose by simp


subsection \<open>Mailer\<close>

lemma env_Some_default: "\<exists>v. env w name (Some d) = Some v"
  by (simp add: env_def Let_def split: option.splits)

lemma int_of_str_error: "int_of_str s = Inl e \<Longrightarrow> e = ValueError"
  by (auto simp: int_of_str_def Let_def split: if_splits)

lemma raised_append:
  "raised net made (xs @ ys) = raised net made xs @ raised net (made @ xs) ys"
  by (induction xs arbitrary: made) simp_all

lemma run_requests_raised:
  assumes "run_requests net made todo = (reqs, exc)"
  shows "\<exists>k \<le> length todo. reqs = made @ take k todo \<and>
           raised net made (take k todo) = (case exc of None \<Rightarrow> [] | Some e \<Rightarrow> [e]) \<and>
           (exc = None \<longrightarrow> k = length todo)"
  using assms
proof (induction todo arbitrary: made)
  case Nil
  then show ?case by auto
next
  case (Cons a todo)
  show ?case
  proof (cases "net made a")
    case (Some e)
    with Cons.prems have "reqs = made @ [a]" "exc = Some e" by simp_all
    with Some have "reqs = made @ take 1 (a # todo) \<and>
        raised net made (take 1 (a # todo)) = (case exc of None \<Rightarrow> [] | Some e \<Rightarrow> [e]) \<and>
        (exc = None \<longrightarrow> 1 = length (a # todo))"
      by simp
    then show ?thesis by (intro exI [of _ 1]) simp
  next
    case None
    with Cons.prems have "run_requests net (made @ [a]) todo = (reqs, exc)" by simp
    from Cons.IH [OF this] obtain k where k: "k \<le> length todo"
      "reqs = (made @ [a]) @ take k todo"
      "raised net (made @ [a]) (take k todo) = (case exc of None \<Rightarrow> [] | Some e \<Rightarrow> [e])"
      "exc = None \<longrightarrow> k = length todo"
      by blast
    with None have "Suc k \<le> length (a # todo) \<and> reqs = made @ take (Suc k) (a # todo) \<and>
        raised net made (take (Suc k) (a # todo)) = (case exc of None \<Rightarrow> [] | Some e \<Rightarrow> [e]) \<and>
        (exc = None \<longrightarrow> Suc k = length (a # todo))"
      by simp
    then show ?thesis by (intro exI [of _ "Suc k"])
  qed
qed

lemma smtp_session_raised:
  assumes "smtp_session net conn body = (reqs, exc)"
  shows "reqs \<noteq> [] \<and> hd reqs = conn \<and> set reqs \<subseteq> insert conn (insert Quit (set body)) \<and>
         (exc = None \<longrightarrow> raised net [] reqs = [] \<and> reqs = conn # body @ [Quit]) \<and>
         (\<forall>e. exc = Some e \<longrightarrow> raised net [] reqs \<noteq> [] \<and> last (raised net [] reqs) = e)"
proof (cases "net [] conn")
  case (Some e)
  with assms have "reqs = [conn]" "exc = Some e" by (simp_all add: smtp_session_def)
  with Some show ?thesis by simp
next
  case None
  obtain made r where rr: "run_requests net [conn] body = (made, r)"
    by (cases "run_requests net [conn] body")
  from run_requests_raised [OF rr] obtain k where k: "k \<le> length body"
    "made = [conn] @ take k body"
    "raised net [conn] (take k body) = (case r of None \<Rightarrow> [] | Some e \<Rightarrow> [e])"
    "r = None \<longrightarrow> k = length body"
    by blast
  have sub: "set (take k body) \<subseteq> set body" by (rule set_take_subset)
  have rd: "raised net [] made = (case r of None \<Rightarrow> [] | Some e \<Rightarrow> [e])"
    using None k(2,3) by simp
  show ?thesis
  proof (cases "net made Quit")
    case (Some e)
    with None rr assms have "reqs = made @ [Quit]" "exc = Some e"
      by (simp_all add: smtp_session_def)
    moreover have "raised net [] (made @ [Quit]) = raised net [] made @ [e]"
      using Some by (simp add: raised_append)
    ultimately show ?thesis using k(2) sub by auto
  next
    case q: None
    with None rr assms have e: "reqs = made @ [Quit]" "exc = r"
      by (simp_all add: smtp_session_def)
    have "raised net [] (made @ [Quit]) = raised net [] made"
      using q by (simp add: raised_append)
    with e rd k(2,4) sub show ?thesis by (auto split: option.splits)
  qed
qed

lemma send_email_missing:
  assumes "settings_missing w"
  shows "send_email w subject body =
           \<lparr>result = Inr 1,
            printed = [(Stderr, ''Missing env vars. Required: DIRCAP_EMAIL_TO, DIRCAP_SMTP_SERVER, DIRCAP_SMTP_USER, DIRCAP_SMTP_PASS'')],
            network = []\<rparr>"
  using assms unfolding settings_missing_def send_email_def Let_def by (simp only: if_True)

lemma send_email_bad_port:
  assumes "\<not> settings_missing w"
    and "opt_int (env w ''DIRCAP_SMTP_PORT'' (Some ''465'')) = Inl ValueError"
  shows "send_email w subject body =
           \<lparr>result = Inr 1,
            printed = [(Stderr, ''Invalid DIRCAP_SMTP_PORT: ''
                                  @ opt_str (env w ''DIRCAP_SMTP_PORT'' (Some ''465'')))],
            network = []\<rparr>"
  using assms unfolding settings_missing_def send_email_def Let_def by simp

lemma send_email_policy:
  assumes "\<not> settings_missing w"
    and "opt_int (env w ''DIRCAP_SMTP_PORT'' (Some ''465'')) = Inr port"
    and "email_policy w (composed w subject body) = Some e"
  shows "send_email w subject body = \<lparr>result = Inl e, printed = [], network = []\<rparr>"
proof -
  obtain use_ssl use_tls where f: "transport_flags w port = (use_ssl, use_tls)"
    by (cases "transport_flags w port")
  show ?thesis
    using assms f unfolding settings_missing_def send_email_def composed_def Let_def
    by simp
qed

lemma send_email_session:
  assumes "\<not> settings_missing w"
    and "opt_int (env w ''DIRCAP_SMTP_PORT'' (Some ''465'')) = Inr port"
    and "email_policy w (composed w subject body) = None"
    and "deliver w (fst (transport_flags w port)) (snd (transport_flags w port))
           (env w ''DIRCAP_SMTP_SERVER'' None) port (env w ''DIRCAP_SMTP_USER'' None)
           (env w ''DIRCAP_SMTP_PASS'' None) (composed w subject body) = (reqs, exc)"
  shows "send_email w subject body =
           (case exc of
              None \<Rightarrow> \<lparr>result = Inr 0,
                       printed = [(Stdout, ''Email sent to ''
                                             @ opt_str (env w ''DIRCAP_EMAIL_TO'' None))],
                       network = reqs\<rparr>
            | Some e \<Rightarrow> \<lparr>result = Inr 2,
                         printed = [(Stderr, ''Email failed: '' @ e)],
                         network = reqs\<rparr>)"
proof -
  obtain use_ssl use_tls where f: "transport_flags w port = (use_ssl, use_tls)"
    by (cases "transport_flags w port")
  show ?thesis
    using assms f unfolding settings_missing_def send_email_def composed_def Let_def
    by (cases exc) simp_all
qed

lemma deliver_raised:
  assumes "deliver w use_ssl use_tls server port user pass msg = (reqs, exc)"
  shows "(exc = None \<longrightarrow> raised (smtp w) [] reqs = []) \<and>
         (\<forall>e. exc = Some e \<longrightarrow> raised (smtp w) [] reqs \<noteq> [] \<and> last (raised (smtp w) [] reqs) = e)"
proof (cases use_ssl)
  case True
  with assms have "smtp_session (smtp w) (SMTP_SSL server port 30)
      [Login user pass, SendMessage msg] = (reqs, exc)"
    by (simp add: deliver_def)
  from smtp_session_raised [OF this] show ?thesis by blast
next
  case False
  with assms have "smtp_session (smtp w) (SMTP server port 30)
      ([Ehlo] @ (if use_tls then [StartTLS, Ehlo] else []) @ [Login user pass, SendMessage msg])
        = (reqs, exc)"
    by (simp add: deliver_def)
  from smtp_session_raised [OF this] show ?thesis by blast
qed

lemma deliver_plain:
  assumes "deliver w False False server port user pass msg = (reqs, exc)"
  shows "hd reqs = SMTP server port 30 \<and> StartTLS \<notin> set reqs \<and>
         (exc = None \<longrightarrow> reqs = [SMTP server port 30, Ehlo, Login user pass, SendMessage msg, Quit])"
proof -
  from assms have "smtp_session (smtp w) (SMTP server port 30)
      [Ehlo, Login user pass, SendMessage msg] = (reqs, exc)"
    by (simp add: deliver_def)
  from smtp_session_raised [OF this] show ?thesis by auto
qed

lemma port_setting_error:
  assumes "opt_int (env w ''DIRCAP_SMTP_PORT'' (Some ''465'')) = Inl e"
  shows "e = ValueError"
proof -
  obtain v where "env w ''DIRCAP_SMTP_PORT'' (Some ''465'') = Some v"
    using env_Some_default by blast
  with assms have "int_of_str v = Inl e" by (simp add: opt_int_def)
  then show ?thesis by (rule int_of_str_error)
qed

lemma send_email_raised:
  assumes "raised (smtp w) [] (network (send_email w subject body)) \<noteq> []"
  shows "send_email w subject body =
           \<lparr>result = Inr 2,
            printed = [(Stderr, ''Email failed: ''
                         @ last (raised (smtp w) [] (network (send_email w subject body))))],
            network = network (send_email w subject body)\<rparr>"
proof (cases "settings_missing w")
  case True
  with assms show ?thesis by (simp add: send_email_missing)
next
  case False
  show ?thesis
  proof (cases "opt_int (env w ''DIRCAP_SMTP_PORT'' (Some ''465''))")
    case (Inl e)
    with port_setting_error [OF Inl] have
      "opt_int (env w ''DIRCAP_SMTP_PORT'' (Some ''465'')) = Inl ValueError" by simp
    with assms False show ?thesis by (simp add: send_email_bad_port)
  next
    case (Inr port)
    show ?thesis
    proof (cases "email_policy w (composed w subject body)")
      case (Some e)
      with assms False Inr show ?thesis by (simp add: send_email_policy)
    next
      case None
      obtain reqs exc where d:
        "deliver w (fst (transport_flags w port)) (snd (transport_flags w port))
           (env w ''DIRCAP_SMTP_SERVER'' None) port (env w ''DIRCAP_SMTP_USER'' None)
           (env w ''DIRCAP_SMTP_PASS'' None) (composed w subject body) = (reqs, exc)"
        by (cases "deliver w (fst (transport_flags w port)) (snd (transport_flags w port))
           (env w ''DIRCAP_SMTP_SERVER'' None) port (env w ''DIRCAP_SMTP_USER'' None)
           (env w ''DIRCAP_SMTP_PASS'' None) (composed w subject body)")
      note s = send_email_session [OF False Inr None d]
      show ?thesis
      proof (cases exc)
        case None
        with s have "network (send_email w subject body) = reqs" by simp
        with deliver_raised [OF d] None assms show ?thesis by simp
      next
        case (Some e)
        with s have n: "network (send_email w subject body) = reqs" by simp
        with deliver_raised [OF d] Some have "last (raised (smtp w) [] reqs) = e" by simp
        with s Some n show ?thesis by simp
      qed
    qed
  qed
qed

lemma send_email_plain:
  assumes "env w ''EMAIL_USE_SSL'' None = None" and "env w ''EMAIL_USE_TLS'' None = None"
    and "\<not> settings_missing w"
    and "opt_int (env w ''DIRCAP_SMTP_PORT'' (Some ''465'')) = Inr 2525"
    and "email_policy w (composed w subject body) = None"
  shows "hd (network (send_email w subject body)) =
           SMTP (env w ''DIRCAP_SMTP_SERVER'' None) 2525 30 \<and>
         StartTLS \<notin> set (network (send_email w subject body)) \<and>
         (raised (smtp w) [] (network (send_email w subject body)) = [] \<longrightarrow>
            network (send_email w subject body) =
              [SMTP (env w ''DIRCAP_SMTP_SERVER'' None) 2525 30, Ehlo,
               Login (env w ''DIRCAP_SMTP_USER'' None) (env w ''DIRCAP_SMTP_PASS'' None),
               SendMessage (composed w subject body), Quit])"
proof -
  have f: "transport_flags w 2525 = (False, False)"
    using assms(1,2) by (simp add: transport_flags_def env_bool_def)
  obtain reqs exc where d:
    "deliver w False False (env w ''DIRCAP_SMTP_SERVER'' None) 2525
       (env w ''DIRCAP_SMTP_USER'' None) (env w ''DIRCAP_SMTP_PASS'' None)
       (composed w subject body) = (reqs, exc)"
    by (cases "deliver w False False (env w ''DIRCAP_SMTP_SERVER'' None) 2525
       (env w ''DIRCAP_SMTP_USER'' None) (env w ''DIRCAP_SMTP_PASS'' None)
       (composed w subject body)")
  then have d': "deliver w (fst (transport_flags w 2525)) (snd (transport_flags w 2525))
       (env w ''DIRCAP_SMTP_SERVER'' None) 2525
       (env w ''DIRCAP_SMTP_USER'' None) (env w ''DIRCAP_SMTP_PASS'' None)
       (composed w subject body) = (reqs, exc)"
    by (simp add: f)
  have n: "network (send_email w subject body) = reqs"
    using send_email_session [OF assms(3,4,5) d'] by (cases exc) simp_all
  have "raised (smtp w) [] reqs = [] \<longrightarrow> exc = None"
    using deliver_raised [OF d] by (cases exc) auto
  with deliver_plain [OF d] n show ?thesis by simp
qed

lemma env_example_world:
  "env example_world ''DIRCAP_EMAIL_TO'' None = Some ''ops@example.org''"
  "env example_world ''DIRCAP_SMTP_SERVER'' None = Some ''smtp.example.org''"
  "env example_world ''DIRCAP_SMTP_USER'' None = Some ''bot''"
  "env example_world ''DIRCAP_SMTP_PASS'' None = Some ''secret''"
  "env example_world ''DIRCAP_EMAIL_FROM'' d = d"
  "env example_world ''DIRCAP_SMTP_PORT'' d = Some ''2525''"
  "env example_world ''EMAIL_USE_SSL'' d = d"
  "env example_world ''EMAIL_USE_TLS'' d = d"
  by (simp_all add: env_def example_world_def strip_def trim_def is_space_def)

lemma int_of_str_2525: "int_of_str ''2525'' = Inr 2525"
  by (simp add: int_of_str_def trim_def is_int_space_def max_str_digits_def is_digit_def nat_of_digits_def
      digit_val_def)

lemma example_world_configured:
  "\<not> settings_missing example_world"
  "opt_int (env example_world ''DIRCAP_SMTP_PORT'' (Some ''465'')) = Inr 2525"
  "email_policy example_world m = None"
  "raised (smtp example_world) made reqs = []"
proof -
  show "\<not> settings_missing example_world"
    by (simp add: settings_missing_def env_example_world opt_not_def)
  show "opt_int (env example_world ''DIRCAP_SMTP_PORT'' (Some ''465'')) = Inr 2525"
    by (simp add: env_example_world opt_int_def int_of_str_2525)
  show "email_policy example_world m = None"
    by (simp add: example_world_def)
  show "raised (smtp example_world) made reqs = []"
    by (induction reqs arbitrary: made) (simp_all add: example_world_def)
qed

lemma env_refusing_world: "env refusing_world = env example_world"
  by (rule ext)+ (simp add: env_def refusing_world_def)

lemma send_email_refused:
  "send_email refusing_world subject body =
     \<lparr>result = Inr 2,
      printed = [(Stderr, ''Email failed: Connection refused'')],
      network = [SMTP (Some ''smtp.example.org'') 2525 30]\<rparr>"
proof -
  have m: "\<not> settings_missing refusing_world"
    using example_world_configured(1) by (simp add: settings_missing_def env_refusing_world)
  have p: "opt_int (env refusing_world ''DIRCAP_SMTP_PORT'' (Some ''465'')) = Inr 2525"
    using example_world_configured(2) by (simp add: env_refusing_world)
  have e: "email_policy refusing_world (composed refusing_world subject body) = None"
    by (simp add: refusing_world_def example_world_def)
  have f: "transport_flags refusing_world 2525 = (False, False)"
    by (simp add: transport_flags_def env_bool_def env_refusing_world env_example_world)
  have d: "deliver refusing_world (fst (transport_flags refusing_world 2525))
             (snd (transport_flags refusing_world 2525))
             (env refusing_world ''DIRCAP_SMTP_SERVER'' None) 2525
             (env refusing_world ''DIRCAP_SMTP_USER'' None)
             (env refusing_world ''DIRCAP_SMTP_PASS'' None)
             (composed refusing_world subject body) =
           ([SMTP (Some ''smtp.example.org'') 2525 30], Some ''Connection refused'')"
    by (simp add: f deliver_def smtp_session_def env_refusing_world env_example_world)
       (simp add: refusing_world_def)
  from send_email_session [OF m p e d] show ?thesis by simp
qed

text \<open>
  Claim C5. When one of the four required settings is missing (unset or blank), or when
  the port setting is not a number, the mailer prints the message of that error on the
  error stream and returns 1 without any SMTP request. When a request of the session
  (connecting, the handshakes, logging in, sending, releasing) raises, the mailer returns
  2 and prints exactly one line, "Email failed:" with the detail of the exception that
  reached it, on the error stream; the confirmation is not printed.
\<close>

theorem mailer_failure_codes:
  "(settings_missing w \<longrightarrow>
      send_email w subject body =
        \<lparr>result = Inr 1,
         printed = [(Stderr, ''Missing env vars. Required: DIRCAP_EMAIL_TO, DIRCAP_SMTP_SERVER, DIRCAP_SMTP_USER, DIRCAP_SMTP_PASS'')],
         network = []\<rparr>) \<and>
   (\<not> settings_missing w \<and> (\<forall>port. opt_int (env w ''DIRCAP_SMTP_PORT'' (Some ''465'')) \<noteq> Inr port) \<longrightarrow>
      send_email w subject body =
        \<lparr>result = Inr 1,
         printed = [(Stderr, ''Invalid DIRCAP_SMTP_PORT: ''
                               @ opt_str (env w ''DIRCAP_SMTP_PORT'' (Some ''465'')))],
         network = []\<rparr>) \<and>
   (raised (smtp w) [] (network (send_email w subject body)) \<noteq> [] \<longrightarrow>
      send_email w subject body =
        \<lparr>result = Inr 2,
         printed = [(Stderr, ''Email failed: ''
                      @ last (raised (smtp w) [] (network (send_email w subject body))))],
         network = network (send_email w subject body)\<rparr>)"
proof (intro conjI impI)
  assume "settings_missing w"
  then show "send_email w subject body =
        \<lparr>result = Inr 1,
         printed = [(Stderr, ''Missing env vars. Required: DIRCAP_EMAIL_TO, DIRCAP_SMTP_SERVER, DIRCAP_SMTP_USER, DIRCAP_SMTP_PASS'')],
         network = []\<rparr>"
    by (rule send_email_missing)
next
  assume a: "\<not> settings_missing w \<and>
    (\<forall>port. opt_int (env w ''DIRCAP_SMTP_PORT'' (Some ''465'')) \<noteq> Inr port)"
  then obtain e where "opt_int (env w ''DIRCAP_SMTP_PORT'' (Some ''465'')) = Inl e"
    by (cases "opt_int (env w ''DIRCAP_SMTP_PORT'' (Some ''465''))") auto
  with port_setting_error [OF this]
  have "opt_int (env w ''DIRCAP_SMTP_PORT'' (Some ''465'')) = Inl ValueError" by simp
  with a show "send_email w subject body =
        \<lparr>result = Inr 1,
         printed = [(Stderr, ''Invalid DIRCAP_SMTP_PORT: ''
                               @ opt_str (env w ''DIRCAP_SMTP_PORT'' (Some ''465'')))],
         network = []\<rparr>"
    by (simp add: send_email_bad_port)
next
  assume "raised (smtp w) [] (network (send_email w subject body)) \<noteq> []"
  then show "send_email w subject body =
        \<lparr>result = Inr 2,
         printed = [(Stderr, ''Email failed: ''
                      @ last (raised (smtp w) [] (network (send_email w subject body))))],
         network = network (send_email w subject body)\<rparr>"
    by (rule send_email_raised)
qed

theorem mailer_failure_codes_witness:
  "(settings_missing unconfigured_world \<and>
    result (send_email unconfigured_world [] []) = Inr 1 \<and>
    network (send_email unconfigured_world [] []) = []) \<and>
   (\<not> settings_missing bad_port_world \<and>
    opt_int (env bad_port_world ''DIRCAP_SMTP_PORT'' (Some ''465'')) = Inl ValueError \<and>
    send_email bad_port_world [] [] =
      \<lparr>result = Inr 1, printed = [(Stderr, ''Invalid DIRCAP_SMTP_PORT: smtp'')], network = []\<rparr>) \<and>
   (raised (smtp refusing_world) [] (network (send_email refusing_world [] [])) =
      [''Connection refused''] \<and>
    send_email refusing_world [] [] =
      \<lparr>result = Inr 2, printed = [(Stderr, ''Email failed: Connection refused'')],
       network = [SMTP (Some ''smtp.example.org'') 2525 30]\<rparr>)"
proof -
  have m: "settings_missing unconfigured_world"
    by (simp add: settings_missing_def unconfigured_world_def env_def opt_not_def)
  have e: "env bad_port_world name None = env example_world name None"
    if "name \<noteq> ''DIRCAP_SMTP_PORT''" for name
    using that by (simp add: env_def bad_port_world_def)
  have n: "\<not> settings_missing bad_port_world"
    by (simp add: settings_missing_def e env_example_world opt_not_def)
  have ps: "env bad_port_world ''DIRCAP_SMTP_PORT'' (Some ''465'') = Some ''smtp''"
    by (simp add: env_def bad_port_world_def strip_def trim_def is_space_def)
  have p: "opt_int (env bad_port_world ''DIRCAP_SMTP_PORT'' (Some ''465'')) = Inl ValueError"
    by (simp add: ps opt_int_def int_of_str_def trim_def is_int_space_def max_str_digits_def is_digit_def)
  then have q: "\<forall>port. opt_int (env bad_port_world ''DIRCAP_SMTP_PORT'' (Some ''465'')) \<noteq> Inr port"
    by simp
  have r: "raised (smtp refusing_world) [] (network (send_email refusing_world [] [])) =
             [''Connection refused'']"
    by (simp add: send_email_refused) (simp add: refusing_world_def)
  from mailer_failure_codes [of unconfigured_world "[]" "[]"] m
  have 1: "result (send_email unconfigured_world [] []) = Inr 1 \<and>
           network (send_email unconfigured_world [] []) = []"
    by simp
  from mailer_failure_codes [of bad_port_world "[]" "[]"] n q
  have 2: "send_email bad_port_world [] [] =
      \<lparr>result = Inr 1, printed = [(Stderr, ''Invalid DIRCAP_SMTP_PORT: smtp'')], network = []\<rparr>"
    by (simp add: ps opt_str_def)
  from mailer_failure_codes [of refusing_world "[]" "[]"] r
  have 3: "send_email refusing_world [] [] =
      \<lparr>result = Inr 2, printed = [(Stderr, ''Email failed: Connection refused'')],
       network = network (send_email refusing_world [] [])\<rparr>"
    by simp
  have "network (send_email refusing_world [] []) = [SMTP (Some ''smtp.example.org'') 2525 30]"
    by (simp add: send_email_refused)
  with 3 have 4: "send_email refusing_world [] [] =
      \<lparr>result = Inr 2, printed = [(Stderr, ''Email failed: Connection refused'')],
       network = [SMTP (Some ''smtp.example.org'') 2525 30]\<rparr>"
    by simp
  from m 1 n p 2 r 4 show ?thesis by blast
qed

text \<open>
  Claim C7. When neither \<^verbatim>\<open>EMAIL_USE_SSL\<close> nor \<^verbatim>\<open>EMAIL_USE_TLS\<close> is set (unset or blank),
  the implicit-encryption flag is true exactly for port 465 and the upgrade flag exactly
  for port 587. For port 2525 both are false, and the mailer opens a plain session: its
  first request is \<^verbatim>\<open>SMTP(server, 2525, timeout=30)\<close>, it never asks for
  \<^verbatim>\<open>STARTTLS\<close>, and when no request raises the session is the plain connection, the
  handshake, the login, the message and the release.
\<close>

theorem default_transport_flags:
  assumes "env w ''EMAIL_USE_SSL'' None = None" and "env w ''EMAIL_USE_TLS'' None = None"
  shows "transport_flags w port = (port = 465, port = 587) \<and>
         transport_flags w 2525 = (False, False) \<and>
         (\<not> settings_missing w \<longrightarrow>
          opt_int (env w ''DIRCAP_SMTP_PORT'' (Some ''465'')) = Inr 2525 \<longrightarrow>
          email_policy w (composed w subject body) = None \<longrightarrow>
            hd (network (send_email w subject body)) =
              SMTP (env w ''DIRCAP_SMTP_SERVER'' None) 2525 30 \<and>
            StartTLS \<notin> set (network (send_email w subject body)) \<and>
            (raised (smtp w) [] (network (send_email w subject body)) = [] \<longrightarrow>
               network (send_email w subject body) =
                 [SMTP (env w ''DIRCAP_SMTP_SERVER'' None) 2525 30, Ehlo,
                  Login (env w ''DIRCAP_SMTP_USER'' None) (env w ''DIRCAP_SMTP_PASS'' None),
                  SendMessage (composed w subject body), Quit]))"
proof -
  have "transport_flags w port = (port = 465, port = 587)" for port
    using assms by (simp add: transport_flags_def env_bool_def)
  then show ?thesis
    using send_email_plain [OF assms] by simp
qed

theorem default_transport_flags_witness:
  "env example_world ''EMAIL_USE_SSL'' None = None \<and>
   env example_world ''EMAIL_USE_TLS'' None = None \<and>
   transport_flags example_world 465 = (True, False) \<and>
   transport_flags example_world 2525 = (False, False) \<and>
   network (send_email example_world [] []) =
     [SMTP (Some ''smtp.example.org'') 2525 30, Ehlo, Login (Some ''bot'') (Some ''secret''),
      SendMessage \<lparr>msg_from = Some ''bot'', msg_to = Some ''ops@example.org'',
                   msg_subject = [], msg_content = []\<rparr>,
      Quit]"
proof -
  have a: "env example_world ''EMAIL_USE_SSL'' None = None"
    and b: "env example_world ''EMAIL_USE_TLS'' None = None"
    by (simp_all add: env_example_world)
  from default_transport_flags [OF a b, of 465 "[]" "[]"] example_world_configured a b
  show ?thesis
    by (simp add: env_example_world composed_def)
qed

subsection \<open>Row formatting\<close>

lemma fmt_row_suffix:
  "fmt_row r =
     ''- '' @ pad_right 4 (py_str (dict_get r ''status'' (JStr []))) @ '' ''
       @ pad_left 4 (py_str (dict_get r ''pct_used'' (JStr []))) @ ''%  ''
       @ py_str (dict_get r ''name'' (JStr [])) @ ''  |  ''
       @ py_str (dict_get r ''path'' (JStr []))
       @ (if isinstance_int (dict_get r ''used_bytes'' JNull) \<and>
             isinstance_int (dict_get r ''limit_bytes'' JNull)
          then '' ('' @ py_str (dict_get r ''used_bytes'' JNull) @ ''B/''
                 @ py_str (dict_get r ''limit_bytes'' JNull) @ ''B)''
          else [])"
  by (simp add: fmt_row_def Let_def)

lemma fmt_row_logs: "fmt_row logs_row = ''- WARN   91%  logs  |  /var/logs (910B/1000B)''"
  by (simp add: fmt_row_suffix logs_row_def dict_get_def py_str_def pad_left_def pad_right_def
      str_int_def str_nat.simps digit_char_def numeral_2_eq_2)

text \<open>
  Claim C8. The record of the specification's example is rendered as the claim says
  (\<open>fmt_row_logs\<close>), but the byte suffix is not tied to integers: \<^verbatim>\<open>isinstance(x, int)\<close>
  accepts the JSON booleans, so a record whose \<^verbatim>\<open>used_bytes\<close> is \<^verbatim>\<open>true\<close> and whose
  \<^verbatim>\<open>limit_bytes\<close> is \<^verbatim>\<open>false\<close> is rendered with the suffix "(TrueB/FalseB)".
\<close>

theorem fmt_row_boolean_bytes:
  "dict_get bool_row ''used_bytes'' JNull = JBool True \<and>
   dict_get bool_row ''limit_bytes'' JNull = JBool False \<and>
   fmt_row bool_row = ''- WARN   91%  logs  |  /var/logs (TrueB/FalseB)''"
  by (simp add: fmt_row_suffix bool_row_def dict_get_def py_str_def pad_left_def pad_right_def
      str_int_def str_nat.simps digit_char_def numeral_2_eq_2)

subsection \<open>Report loader and message builder\<close>

lemma load_json_total: "\<exists>v. load_json w p = Inr v"
  by (simp add: load_json_def split: sum.splits)

lemma report_payload_raises: "report_payload w p = Inl e \<longleftrightarrow> path_exists w p = Inl e"
  using load_json_total [of w p]
  by (cases "path_exists w p") (auto simp: report_payload_def)

lemma summarize_JNull: "summarize JNull = Inr (\<lparr>ok = 0, warn = 0, over = 0\<rparr>, [], [])"
  by (simp add: summarize_def read_report_def)

lemma str_nat_0: "str_nat 0 = ''0''"
  by (simp add: str_nat.simps digit_char_def)

lemma str_int_0: "str_int 0 = ''0''"
  by (simp add: str_int_def str_nat_0)

lemma build_message_subject:
  "fst (build_message w s ws rs lt lj) =
     ''dircap alert: OVER='' @ str_int (over s) @ '' WARN='' @ str_int (warn s)"
  by (simp add: build_message_def Let_def)

lemma build_message_body_clock:
  "snd (build_message w1 s ws rs lt lj) = snd (build_message w2 s ws rs lt lj)
     \<longleftrightarrow> strftime_now w1 = strftime_now w2"
  by (simp add: build_message_def Let_def)

text \<open>
  Claim C6. Loading the report never raises: \<open>load_json\<close> always returns a value, which is
  \<^verbatim>\<open>None\<close> when reading the file raises and when parsing its text raises, and \<^verbatim>\<open>main\<close>
  takes \<^verbatim>\<open>None\<close> for a path that does not exist. For the \<^verbatim>\<open>None\<close> report the summarizer
  returns the tally (0, 0, 0) with no warnings and no results, and the body built from
  them holds the line "could not parse details" where the affected rows would be.
\<close>

theorem absent_report_degrades:
  "(\<exists>v. load_json w p = Inr v) \<and>
   (\<forall>e. read_text w p = Inl e \<longrightarrow> load_json w p = Inr JNull) \<and>
   (\<forall>t e. read_text w p = Inr t \<longrightarrow> json_loads w t = Inl e \<longrightarrow> load_json w p = Inr JNull) \<and>
   (path_exists w p = Inr False \<longrightarrow> report_payload w p = Inr JNull) \<and>
   summarize JNull = Inr (\<lparr>ok = 0, warn = 0, over = 0\<rparr>, [], []) \<and>
   snd (build_message w \<lparr>ok = 0, warn = 0, over = 0\<rparr> [] [] lt lj) =
     join [CHR 0x0A]
       [''dircap detected a cap breach.'',
        [],
        ''Summary: OK=0  WARN=0  OVER=0'',
        ''Time:    '' @ strftime_now w,
        [],
        ''Affected folders: (could not parse details from JSON)'',
        [],
        ''Logs:'',
        ''- Text: '' @ path_str lt,
        ''- JSON: '' @ path_str lj,
        [],
        ''Tip: Open the text log for the full Rich table output.'']"
proof -
  have "snd (build_message w \<lparr>ok = 0, warn = 0, over = 0\<rparr> [] [] lt lj) =
     join [CHR 0x0A]
       [''dircap detected a cap breach.'',
        [],
        ''Summary: OK=0  WARN=0  OVER=0'',
        ''Time:    '' @ strftime_now w,
        [],
        ''Affected folders: (could not parse details from JSON)'',
        [],
        ''Logs:'',
        ''- Text: '' @ path_str lt,
        ''- JSON: '' @ path_str lj,
        [],
        ''Tip: Open the text log for the full Rich table output.'']"
    by (simp add: build_message_def Let_def str_int_0)
  moreover have "\<forall>e. read_text w p = Inl e \<longrightarrow> load_json w p = Inr JNull"
    by (simp add: load_json_def)
  moreover have
    "\<forall>t e. read_text w p = Inr t \<longrightarrow> json_loads w t = Inl e \<longrightarrow> load_json w p = Inr JNull"
    by (simp add: load_json_def)
  moreover have "path_exists w p = Inr False \<longrightarrow> report_payload w p = Inr JNull"
    by (simp add: report_payload_def)
  ultimately show ?thesis
    using load_json_total [of w p] summarize_JNull by blast
qed

theorem absent_report_degrades_witness:
  "(read_text example_world (PurePath ''dircap-last.json'') =
      Inl (OtherException ''FileNotFoundError'') \<and>
    path_exists example_world (PurePath ''dircap-last.json'') = Inr False \<and>
    load_json example_world (PurePath ''dircap-last.json'') = Inr JNull \<and>
    report_payload example_world (PurePath ''dircap-last.json'') = Inr JNull) \<and>
   (read_text corrupt_report_world (PurePath ''dircap-last.json'') = Inr ''{status: WARN'' \<and>
    json_loads corrupt_report_world ''{status: WARN'' = Inl ValueError \<and>
    load_json corrupt_report_world (PurePath ''dircap-last.json'') = Inr JNull)"
proof -
  have r: "read_text example_world (PurePath ''dircap-last.json'') =
             Inl (OtherException ''FileNotFoundError'')"
    and x: "path_exists example_world (PurePath ''dircap-last.json'') = Inr False"
    by (simp_all add: example_world_def)
  have t: "read_text corrupt_report_world (PurePath ''dircap-last.json'') = Inr ''{status: WARN''"
    and j: "json_loads corrupt_report_world ''{status: WARN'' = Inl ValueError"
    by (simp_all add: corrupt_report_world_def)
  from absent_report_degrades [of example_world "PurePath ''dircap-last.json''"] r x
  have "load_json example_world (PurePath ''dircap-last.json'') = Inr JNull \<and>
        report_payload example_world (PurePath ''dircap-last.json'') = Inr JNull"
    by blast
  moreover from absent_report_degrades [of corrupt_report_world "PurePath ''dircap-last.json''"] t j
  have "load_json corrupt_report_world (PurePath ''dircap-last.json'') = Inr JNull"
    by blast
  ultimately show ?thesis using r x t j by blast
qed

text \<open>
  Claim C2, as amended. For a fixed tally, warnings, results and paths, the subject is the
  same in every invocation, and nothing of the world but the clock reaches the message:
  two invocations return the same body exactly when they read the same local time.
\<close>

theorem build_message_depends_on_clock_only:
  "fst (build_message w1 s ws rs lt lj) = fst (build_message w2 s ws rs lt lj) \<and>
   (build_message w1 s ws rs lt lj = build_message w2 s ws rs lt lj
      \<longleftrightarrow> strftime_now w1 = strftime_now w2)"
proof -
  have "fst (build_message w1 s ws rs lt lj) = fst (build_message w2 s ws rs lt lj)"
    by (simp add: build_message_subject)
  with build_message_body_clock [of w1 s ws rs lt lj w2] show ?thesis
    by (simp add: prod_eq_iff)
qed

theorem build_message_depends_on_clock_only_witness:
  "strftime_now example_world = strftime_now bad_tally_world \<and>
   build_message example_world \<lparr>ok = 0, warn = 1, over = 2\<rparr> [] [] (PurePath ''a'') (PurePath ''b'') =
   build_message bad_tally_world \<lparr>ok = 0, warn = 1, over = 2\<rparr> [] [] (PurePath ''a'') (PurePath ''b'')"
proof -
  have c: "strftime_now example_world = strftime_now bad_tally_world"
    by (simp add: bad_tally_world_def)
  with build_message_depends_on_clock_only
         [of example_world "\<lparr>ok = 0, warn = 1, over = 2\<rparr>" "[]" "[]" "PurePath ''a''" "PurePath ''b''"
             bad_tally_world]
  show ?thesis by simp
qed

text \<open>
  Claim C2 as stated fails: with the same tally, warnings, results and paths, a message
  built one second later has another body.
\<close>

theorem build_message_clock_counterexample:
  "build_message example_world \<lparr>ok = 0, warn = 1, over = 2\<rparr> [] [] (PurePath ''a'') (PurePath ''b'') \<noteq>
   build_message (example_world\<lparr>strftime_now := ''2026-11-04 09:42:01''\<rparr>)
     \<lparr>ok = 0, warn = 1, over = 2\<rparr> [] [] (PurePath ''a'') (PurePath ''b'')"
  by (simp add: build_message_def Let_def example_world_def)

subsection \<open>Entry point\<close>

lemma main_three_args:
  assumes "length argv = 3"
  shows "main w argv =
           (case report_payload w (path_of w (argv ! 2)) of
              Inl e \<Rightarrow> \<lparr>result = Inl e, printed = [], network = []\<rparr>
            | Inr payload \<Rightarrow>
                (case summarize payload of
                   Inl e \<Rightarrow> \<lparr>result = Inl e, printed = [], network = []\<rparr>
                 | Inr (summary, warnings, results) \<Rightarrow>
                     (case build_message w summary warnings results (path_of w (argv ! 1))
                             (path_of w (argv ! 2)) of
                        (subject, body) \<Rightarrow> send_email w subject body)))"
  unfolding main_def Let_def by (simp only: assms simp_thms if_False)

lemma main_wrong_arity:
  assumes "length argv \<noteq> 3"
  shows "main w argv =
           \<lparr>result = Inr 2,
            printed = [(Stderr, ''Usage: send-email.py <log_txt_path> <log_json_path>'')],
            network = []\<rparr>"
  using assms by (simp add: main_def)

text \<open>
  Claim C1, as amended. Called with any number of arguments other than three (the program
  name and two paths), \<^verbatim>\<open>main\<close> prints the usage line on the error stream, makes no SMTP
  request and returns 2. The code is not a dedicated one: it is the code the mailer
  returns for a transport error, and differs from the mailer's code for a configuration
  error.
\<close>

theorem main_usage_error:
  assumes "length argv \<noteq> 3"
  shows "main w argv =
           \<lparr>result = Inr 2,
            printed = [(Stderr, ''Usage: send-email.py <log_txt_path> <log_json_path>'')],
            network = []\<rparr> \<and>
         exit_status (main w argv) = 2 \<and>
         result (main w argv) = result (send_email refusing_world subject body) \<and>
         (settings_missing w' \<longrightarrow> result (main w argv) \<noteq> result (send_email w' subject body))"
  by (simp add: main_wrong_arity [OF assms] exit_status_def send_email_refused
      send_email_missing)

theorem main_usage_error_witness:
  "length [''send-email.py'', ''dircap-last.txt''] \<noteq> 3 \<and>
   settings_missing (example_world\<lparr>getenv := (\<lambda>n. None)\<rparr>) \<and>
   exit_status (main example_world [''send-email.py'', ''dircap-last.txt'']) = 2 \<and>
   result (main example_world [''send-email.py'', ''dircap-last.txt''])
     \<noteq> result (send_email (example_world\<lparr>getenv := (\<lambda>n. None)\<rparr>) [] [])"
proof -
  have a: "length [''send-email.py'', ''dircap-last.txt''] \<noteq> 3" by simp
  have m: "settings_missing (example_world\<lparr>getenv := (\<lambda>n. None)\<rparr>)"
    by (simp add: settings_missing_def env_def opt_not_def)
  from main_usage_error [OF a, of example_world "[]" "[]" "example_world\<lparr>getenv := (\<lambda>n. None)\<rparr>"]
    a m
  show ?thesis by blast
qed

text \<open>
  Claim C1 as stated fails: called with one path only, the exit status is 2, not 1.
\<close>

theorem main_usage_error_counterexample:
  "exit_status (main example_world [''send-email.py'', ''dircap-last.txt'']) = 2 \<and>
   exit_status (main example_world [''send-email.py'', ''dircap-last.txt'']) \<noteq> 1"
  by (simp add: main_def exit_status_def)

text \<open>
  Claim C9. The summarizer is not total: for the verbose report whose tally gives
  \<^verbatim>\<open>ok\<close> as the text "abc", the integer coercion raises \<^verbatim>\<open>ValueError\<close>, which escapes
  the summarizer; a run that loads this report ends with that exception, having printed
  nothing and sent nothing, in place of continuing with an empty report.
\<close>

theorem main_aborts_on_bad_tally:
  assumes "length argv = 3"
    and "path_exists w (path_of w (argv ! 2)) = Inr True"
    and "load_json w (path_of w (argv ! 2)) = Inr bad_tally_report"
  shows "summarize bad_tally_report = Inl ValueError \<and>
         main w argv = \<lparr>result = Inl ValueError, printed = [], network = []\<rparr> \<and>
         exit_status (main w argv) = 1"
proof -
  from assms(2,3) have "report_payload w (path_of w (argv ! 2)) = Inr bad_tally_report"
    by (simp add: report_payload_def)
  then have "main w argv = \<lparr>result = Inl ValueError, printed = [], network = []\<rparr>"
    by (simp add: main_three_args [OF assms(1)] summarize_bad_tally)
  then show ?thesis
    by (simp add: summarize_bad_tally exit_status_def)
qed

theorem main_aborts_on_bad_tally_witness:
  "length example_argv = 3 \<and>
   path_exists bad_tally_world (path_of bad_tally_world (example_argv ! 2)) = Inr True \<and>
   load_json bad_tally_world (path_of bad_tally_world (example_argv ! 2)) = Inr bad_tally_report \<and>
   main bad_tally_world example_argv = \<lparr>result = Inl ValueError, printed = [], network = []\<rparr>"
proof -
  have a: "length example_argv = 3"
    by (simp add: example_argv_def)
  have b: "path_exists bad_tally_world (path_of bad_tally_world (example_argv ! 2)) = Inr True"
    by (simp add: bad_tally_world_def)
  have c: "load_json bad_tally_world (path_of bad_tally_world (example_argv ! 2)) =
             Inr bad_tally_report"
    by (simp add: bad_tally_world_def load_json_def)
  from main_aborts_on_bad_tally [OF a b c] a b c show ?thesis by blast
qed

text \<open>
  Whenever the report is loaded and the summarizer returns, whatever the tally is,
  \<^verbatim>\<open>main\<close> builds the message from the summarizer's result and hands it to the mailer,
  and the outcome of \<^verbatim>\<open>main\<close> (its return value, its output and its SMTP requests) is
  exactly the mailer's. On the two other paths nothing is built or sent: an exception of
  the summarizer, and one of \<^verbatim>\<open>exists\<close>, leave \<^verbatim>\<open>main\<close> as they are.
\<close>

lemma main_returns_mailer_outcome:
  assumes "length argv = 3"
    and "report_payload w (path_of w (argv ! 2)) = Inr payload"
    and "summarize payload = Inr (s, ws, rs)"
  shows "main w argv =
           send_email w
             (fst (build_message w s ws rs (path_of w (argv ! 1)) (path_of w (argv ! 2))))
             (snd (build_message w s ws rs (path_of w (argv ! 1)) (path_of w (argv ! 2))))"
  using assms(2,3) by (simp add: main_three_args [OF assms(1)] split: prod.splits)

lemma main_summarizer_raises:
  assumes "length argv = 3"
    and "report_payload w (path_of w (argv ! 2)) = Inr payload"
    and "summarize payload = Inl e"
  shows "main w argv = \<lparr>result = Inl e, printed = [], network = []\<rparr>"
  using assms(2,3) by (simp add: main_three_args [OF assms(1)])

lemma main_exists_raises:
  assumes "length argv = 3"
    and "path_exists w (path_of w (argv ! 2)) = Inl e"
  shows "main w argv = \<lparr>result = Inl e, printed = [], network = []\<rparr>"
proof -
  from assms(2) have "report_payload w (path_of w (argv ! 2)) = Inl e"
    by (simp add: report_payload_raises)
  then show ?thesis by (simp add: main_three_args [OF assms(1)])
qed

text \<open>
  Claim C10. The script is written to send the alert whatever the report holds, and it
  does so whenever the summarizer returns (\<open>main_returns_mailer_outcome\<close>). It does not for
  every report and every path: for the report whose tally gives \<^verbatim>\<open>ok\<close> as the text
  "abc" the unguarded \<^verbatim>\<open>int\<close> raises, and \<^verbatim>\<open>main\<close> ends with \<^verbatim>\<open>ValueError\<close>, no line
  printed, no SMTP request made and exit status 1; and when \<^verbatim>\<open>exists\<close> raises for the
  report path, \<^verbatim>\<open>main\<close> ends with that exception in the same way.
\<close>

theorem main_aborts_without_sending:
  "main bad_tally_world example_argv =
     \<lparr>result = Inl ValueError, printed = [], network = []\<rparr> \<and>
   exit_status (main bad_tally_world example_argv) = 1 \<and>
   main long_name_world example_argv =
     \<lparr>result = Inl (OtherException ''OSError: File name too long''), printed = [],
      network = []\<rparr>"
proof -
  have a: "length example_argv = 3"
    by (simp add: example_argv_def)
  have "report_payload bad_tally_world (path_of bad_tally_world (example_argv ! 2)) =
          Inr bad_tally_report"
    by (simp add: report_payload_def load_json_def bad_tally_world_def)
  from main_summarizer_raises [OF a this summarize_bad_tally]
  have 1: "main bad_tally_world example_argv =
             \<lparr>result = Inl ValueError, printed = [], network = []\<rparr>" .
  have "path_exists long_name_world (path_of long_name_world (example_argv ! 2)) =
          Inl (OtherException ''OSError: File name too long'')"
    by (simp add: long_name_world_def)
  from main_exists_raises [OF a this]
  have 2: "main long_name_world example_argv =
             \<lparr>result = Inl (OtherException ''OSError: File name too long''), printed = [],
              network = []\<rparr>" .
  from 1 2 show ?thesis by (simp add: exit_status_def)
qed

subsection \<open>What "status equals a label" means\<close>

text \<open>
  The script compares \<^verbatim>\<open>str(r.get("status"))\<close> with the label. For every status that is
  not a float this is the case exactly when the record has the label itself, as a JSON
  string, under \<^verbatim>\<open>status\<close>: no other value prints as one of the three labels.
\<close>

lemma digit_char_in: "d < 10 \<Longrightarrow> digit_char d \<in> set ''0123456789''"
proof -
  assume "d < 10"
  then have "d \<in> {0, 1, 2, 3, 4, 5, 6, 7, 8, 9}" by auto
  then show ?thesis by (auto simp: digit_char_def)
qed

lemma str_nat_chars: "str_nat n \<noteq> [] \<and> set (str_nat n) \<subseteq> set ''0123456789''"
proof (induction n rule: str_nat.induct)
  case (1 n)
  show ?case
  proof (cases "n < 10")
    case True
    with digit_char_in [of n] show ?thesis by (simp add: str_nat.simps [of n])
  next
    case False
    have "n mod 10 < 10" by simp
    from digit_char_in [OF this] "1" [OF False] False show ?thesis
      by (simp add: str_nat.simps [of n])
  qed
qed

lemma str_int_hd: "str_int i \<noteq> [] \<and> hd (str_int i) \<in> set ''-0123456789''"
proof (cases "i < 0")
  case True
  then show ?thesis by (simp add: str_int_def)
next
  case False
  from str_nat_chars [of "nat i"] have "hd (str_nat (nat i)) \<in> set ''0123456789''"
    by (cases "str_nat (nat i)") auto
  with False str_nat_chars [of "nat i"] show ?thesis by (auto simp: str_int_def)
qed

lemma py_str_is_label:
  assumes "label \<in> {''OK'', ''WARN'', ''OVER''}" and "\<And>f. v \<noteq> JFloat f"
  shows "py_str v = label \<longleftrightarrow> v = JStr label"
proof (cases v)
  case (JInt n)
  from str_int_hd [of n] have "hd (str_int n) \<noteq> CHR ''O''" "hd (str_int n) \<noteq> CHR ''W''"
    by auto
  with assms(1) JInt show ?thesis by (auto simp: py_str_def)
next
  case (JFloat f)
  with assms(2) [of f] show ?thesis by blast
qed (use assms(1) in \<open>auto simp: py_str_def\<close>)

lemma count_records_by_field:
  assumes "label \<in> {''OK'', ''WARN'', ''OVER''}"
    and "\<And>r f. r \<in> set results \<Longrightarrow> map_of r ''status'' \<noteq> Some (JFloat f)"
  shows "count_records label results =
           int (length (filter (\<lambda>r. map_of r ''status'' = Some (JStr label)) results))"
proof -
  have "py_str (dict_get r ''status'' JNull) = label \<longleftrightarrow> map_of r ''status'' = Some (JStr label)"
    if "r \<in> set results" for r
  proof (cases "map_of r ''status''")
    case None
    with assms(1) show ?thesis by (auto simp: dict_get_def py_str_def)
  next
    case (Some v)
    with assms(2) [OF that] have "\<And>f. v \<noteq> JFloat f" by auto
    from py_str_is_label [OF assms(1) this] Some show ?thesis by (simp add: dict_get_def)
  qed
  then have "filter (\<lambda>r. py_str (dict_get r ''status'' JNull) = label) results =
             filter (\<lambda>r. map_of r ''status'' = Some (JStr label)) results"
    by (intro filter_cong) auto
  then show ?thesis by (simp add: count_records_def)
qed

subsection \<open>The built-ins at their edges\<close>

text \<open>
  The separators 0x1C to 0x1F are blank to \<^verbatim>\<open>str.strip\<close> and not to \<^verbatim>\<open>int\<close>; the
  no-break space is blank to both; a numeral of 4301 digits is refused by \<^verbatim>\<open>int\<close>.
\<close>

lemma strip_no_break_space: "strip [CHR 0xA0, CHR ''7'', CHR 0x1F, CHR 0x85] = ''7''"
  by (simp add: strip_def trim_def is_space_def)

lemma int_of_str_separator: "int_of_str [CHR 0x1F, CHR ''7''] = Inl ValueError"
  by (simp add: int_of_str_def trim_def is_int_space_def is_digit_def)

lemma int_of_str_no_break_space: "int_of_str [CHR 0xA0, CHR ''+'', CHR ''7'', CHR 0x09] = Inr 7"
  by (simp add: int_of_str_def trim_def is_int_space_def max_str_digits_def is_digit_def
      nat_of_digits_def digit_val_def)

lemma valid_digits_replicate: "0 < n \<Longrightarrow> valid_digits (replicate n CHR ''1'')"
proof (induction n rule: less_induct)
  case (less n)
  show ?case
  proof (cases n)
    case 0
    with less.prems show ?thesis by simp
  next
    case (Suc m)
    show ?thesis
    proof (cases m)
      case 0
      with Suc show ?thesis by (simp add: is_digit_def)
    next
      case (Suc k)
      with \<open>n = Suc m\<close> less.IH [of m] show ?thesis by (simp add: is_digit_def)
    qed
  qed
qed

lemma int_of_str_digit_limit:
  "int_of_str (replicate 4301 CHR ''1'') = Inl ValueError \<and>
   (\<exists>v. int_of_str (replicate 4300 CHR ''1'') = Inr v)"
proof -
  have t: "trim is_int_space (replicate n CHR ''1'') = replicate n CHR ''1''" for n
    by (simp add: trim_def is_int_space_def dropWhile_replicate)
  have h: "n > 0 \<Longrightarrow> hd (replicate n CHR ''1'') = CHR ''1''" for n
    by (cases n) simp_all
  have f: "filter is_digit (replicate n CHR ''1'') = replicate n CHR ''1''" for n
    by (simp add: is_digit_def)
  show ?thesis
    using valid_digits_replicate [of 4300] h [of 4300] h [of 4301]
    by (simp add: int_of_str_def Let_def t f max_str_digits_def)
qed

lemma lower_latin: "lower [CHR ''O'', CHR 0xC9, CHR 0xD7, CHR ''n''] = [CHR ''o'', CHR 0xE9, CHR 0xD7, CHR ''n'']"
  by (simp add: lower_def lower_char_def)

lemma repr_str_not_printable:
  "repr_str [CHR 0xA0, CHR 0x0A, CHR ''a'', CHR 0xE9] =
     [CHR 0x27, CHR 0x5C, CHR ''x'', CHR ''a'', CHR ''0'', CHR 0x5C, CHR ''n'', CHR ''a'',
      CHR 0xE9, CHR 0x27]"
  by (simp add: repr_str_def Let_def repr_char_def hex_char_def)

end
